theory Spec2Isabelle
  imports Main "HOL-Library.Sublist" "HOL-Library.Multiset"
begin

text \<open>
  A model of two view components of the OpenMetadata UI, \<^verbatim>\<open>ActivityFeedList.tsx\<close> and
  \<^verbatim>\<open>EntityVersionTimeLine.tsx\<close>: their state cells, their event handlers as functions on
  the state, and what they render as a tree of nodes. The definitions come first, the
  properties after them.
\<close>

section \<open>ActivityFeedList: data and component state\<close>

text \<open>
  \<^verbatim>\<open>Post\<close> and \<^verbatim>\<open>EntityThread\<close> are imported from the \<^verbatim>\<open>Models\<close> declarations; the fields
  below are the ones \<^verbatim>\<open>ActivityFeedList.tsx\<close> reads. Field names carry a prefix where the
  plain name is taken (\<^verbatim>\<open>id\<close>, \<^verbatim>\<open>from\<close>, \<^verbatim>\<open>message\<close>).
\<close>

record post =
  post_message :: string
  post_postTs :: int
  post_from :: string

record entityThread =
  thread_id :: string
  thread_about :: string
  thread_message :: string
  thread_threadTs :: int
  thread_createdBy :: string
  thread_posts :: "post list"
  thread_postsCount :: int

text \<open>
  The three \<^verbatim>\<open>useState\<close> cells of the component (lines 178-180). The identifier
  \<^verbatim>\<open>selctedThreadId\<close> is spelled as in the source.
\<close>

record feedState =
  selectedThread :: "entityThread option"
  selctedThreadId :: string
  isPanelOpen :: bool

definition initialFeedState :: feedState where
  "initialFeedState = \<lparr>selectedThread = None, selctedThreadId = '''', isPanelOpen = False\<rparr>"

definition onThreadIdSelect :: "string \<Rightarrow> feedState \<Rightarrow> feedState" where
  "onThreadIdSelect ident st = st\<lparr>selctedThreadId := ident\<rparr>"

definition onThreadIdDeselect :: "feedState \<Rightarrow> feedState" where
  "onThreadIdDeselect st = st\<lparr>selctedThreadId := ''''\<rparr>"

text \<open>
  \<^verbatim>\<open>feedList.find((f) => f.id === id)\<close> yields the first element with that id or
  \<^verbatim>\<open>undefined\<close>; a thread object is truthy, so the setter runs exactly when one is found.
\<close>

definition onThreadSelect :: "entityThread list \<Rightarrow> string \<Rightarrow> feedState \<Rightarrow> feedState" where
  "onThreadSelect feedList ident st =
     (case find (\<lambda>f. thread_id f = ident) feedList of
        Some thread \<Rightarrow> st\<lparr>selectedThread := Some thread\<rparr>
      | None \<Rightarrow> st)"

definition onViewMore :: "feedState \<Rightarrow> feedState" where
  "onViewMore st = st\<lparr>isPanelOpen := True\<rparr>"

definition onCancel :: "feedState \<Rightarrow> feedState" where
  "onCancel st = st\<lparr>selectedThread := None, isPanelOpen := False\<rparr>"

text \<open>
  \<^verbatim>\<open>postFeedHandler?.(value, selctedThreadId)\<close>: the owner's handler is an optional prop.
  Its effect lives outside the component, so it is a transformer of the owner's state
  \<open>'w\<close>; a missing handler leaves that state as it is.
\<close>

definition postFeed ::
  "(string \<Rightarrow> string \<Rightarrow> 'w \<Rightarrow> 'w) option \<Rightarrow> feedState \<Rightarrow> string \<Rightarrow> 'w \<Rightarrow> 'w" where
  "postFeed postFeedHandler st val w =
     (case postFeedHandler of
        None \<Rightarrow> w
      | Some handler \<Rightarrow> handler val (selctedThreadId st) w)"

text \<open>
  The effect with dependency list \<^verbatim>\<open>[feedList]\<close> (lines 210-212): it runs after the
  render that received a new list, with that render's list and state.
\<close>

definition feedListEffect :: "entityThread list \<Rightarrow> feedState \<Rightarrow> feedState" where
  "feedListEffect feedList st = onThreadSelect feedList (selctedThreadId st) st"

text \<open>
  The \<^verbatim>\<open>keydown\<close> listener installed on mount (lines 214-225); the argument is
  \<^verbatim>\<open>e.key\<close>. The state setters it reaches are stable across renders.
\<close>

definition escapeKeyHandler :: "string \<Rightarrow> feedState \<Rightarrow> feedState" where
  "escapeKeyHandler key st = (if key = ''Escape'' then onCancel st else st)"


subsection \<open>What the component renders\<close>

text \<open>
  The props \<^verbatim>\<open>ActivityFeedCard\<close> receives for a thread (lines 112-123). \<^verbatim>\<open>mainFeed\<close> has
  the shape of a post. \<^verbatim>\<open>feed.posts[postLength - 1]\<close> is \<^verbatim>\<open>undefined\<close> for a thread
  without posts, and \<^verbatim>\<open>lastPost?.postTs\<close> is then \<^verbatim>\<open>undefined\<close> too.
\<close>

record feedCard =
  card_entityLink :: string
  card_feed :: post
  card_isEntityFeed :: bool
  card_isFooterVisible :: bool
  card_lastReplyTimeStamp :: "int option"
  card_repliedUsers :: "string list"
  card_replies :: int
  card_threadId :: string

text \<open>
  The rendered tree, one constructor per component or element that the JSX of
  \<^verbatim>\<open>ActivityFeedList.tsx\<close> can produce. \<open>ExpandedThread\<close> is the
  \<^verbatim>\<open><div className="tw-mb-6">\<close> below the card of the thread whose id is selected;
  \<open>ViewAllReplies n\<close> is the link "View all (n) replies"; \<open>ReplyCount n w\<close> is the text
  "n replies" or "n reply"; \<open>LatestReplyFeedList feeds\<close> shows one card for each post of
  \<open>feeds\<close>.
\<close>

datatype feedNode =
    FeedListSeparator string
  | ActivityFeedCard feedCard
  | ExpandedThread "feedNode list"
  | ViewAllReplies int
  | ReplyCount int string
  | LatestReplyFeedList "post list"
  | ActivityFeedEditor
  | ActivityFeedPanel entityThread
  | Onboarding

text \<open>The callback of \<^verbatim>\<open>.map\<close> in \<^verbatim>\<open>FeedListBody\<close> (lines 99-164), for one thread.\<close>

definition feedFragment :: "bool \<Rightarrow> string \<Rightarrow> entityThread \<Rightarrow> feedNode list" where
  "feedFragment isEntityFeed selctedId feed =
     (let mainFeed = \<lparr>post_message = thread_message feed,
                      post_postTs = thread_threadTs feed,
                      post_from = thread_createdBy feed\<rparr>;
          replies = thread_postsCount feed;
          repliedUsers = map post_from (thread_posts feed);
          lastPost = (if thread_posts feed = [] then None else Some (last (thread_posts feed)))
      in ActivityFeedCard
           \<lparr>card_entityLink = thread_about feed,
            card_feed = mainFeed,
            card_isEntityFeed = isEntityFeed,
            card_isFooterVisible = (selctedId \<noteq> thread_id feed),
            card_lastReplyTimeStamp = map_option post_postTs lastPost,
            card_repliedUsers = repliedUsers,
            card_replies = replies,
            card_threadId = thread_id feed\<rparr>
         # (if selctedId = thread_id feed
            then [ExpandedThread
                    ((if 3 < replies then [ViewAllReplies replies]
                      else if 0 < replies
                        then [ReplyCount replies (if 1 < replies then ''replies'' else ''reply'')]
                        else [])
                     @ [LatestReplyFeedList (thread_posts feed), ActivityFeedEditor])]
            else []))"

text \<open>
  \<^verbatim>\<open>FeedListBody\<close>: the threads of one relative day, in the order of
  \<^verbatim>\<open>updatedFeedList\<close>. An element of \<^verbatim>\<open>updatedFeedList\<close> is a thread with its
  \<^verbatim>\<open>relativeDay\<close> label.
\<close>

definition FeedListBody ::
  "(entityThread \<times> string) list \<Rightarrow> string \<Rightarrow> bool \<Rightarrow> string \<Rightarrow> feedNode list" where
  "FeedListBody updatedFeedList relativeDay isEntityFeed selctedId =
     concat (map (\<lambda>f. feedFragment isEntityFeed selctedId (fst f))
                 (filter (\<lambda>f. snd f = relativeDay) updatedFeedList))"

text \<open>
  The click handler of the "View all" link (lines 130-133):
  \<^verbatim>\<open>onThreadSelect(selctedThreadId); onViewMore()\<close>.
\<close>

definition viewAllClick :: "entityThread list \<Rightarrow> feedState \<Rightarrow> feedState" where
  "viewAllClick feedList st = onViewMore (onThreadSelect feedList (selctedThreadId st) st)"

text \<open>
  The component's render (lines 227-268). \<^verbatim>\<open>getFeedListWithRelativeDays\<close> comes from
  \<^verbatim>\<open>utils/FeedUtils\<close>, which is not among the sources, so it is a parameter: any function
  from the feed list to the labelled list and the list of day labels.
\<close>

definition ActivityFeedList ::
  "(entityThread list \<Rightarrow> (entityThread \<times> string) list \<times> string list)
     \<Rightarrow> entityThread list \<Rightarrow> bool \<Rightarrow> bool \<Rightarrow> feedState \<Rightarrow> feedNode list" where
  "ActivityFeedList getFeedListWithRelativeDays feedList withSidePanel isEntityFeed st =
     (case getFeedListWithRelativeDays feedList of
        (updatedFeedList, relativeDays) \<Rightarrow>
          if 0 < length feedList
          then concat (map (\<lambda>d. FeedListSeparator d
                                 # FeedListBody updatedFeedList d isEntityFeed (selctedThreadId st))
                           relativeDays)
               @ (case selectedThread st of
                    Some thread \<Rightarrow>
                      if withSidePanel \<and> isPanelOpen st then [ActivityFeedPanel thread] else []
                  | None \<Rightarrow> [])
          else [Onboarding])"

text \<open>The reply cards a rendered tree shows inline, in document order.\<close>

fun inlineReplies :: "feedNode \<Rightarrow> post list" where
  "inlineReplies (LatestReplyFeedList feeds) = feeds"
| "inlineReplies (ExpandedThread nodes) = concat (map inlineReplies nodes)"
| "inlineReplies _ = []"

subsection \<open>Example feed\<close>

definition reply1 :: post where
  "reply1 = \<lparr>post_message = ''first'', post_postTs = 101, post_from = ''ann''\<rparr>"

definition reply2 :: post where
  "reply2 = \<lparr>post_message = ''second'', post_postTs = 102, post_from = ''bob''\<rparr>"

definition reply3 :: post where
  "reply3 = \<lparr>post_message = ''third'', post_postTs = 103, post_from = ''cy''\<rparr>"

text \<open>A thread with five replies of which the feed carries the latest three.\<close>

definition threadA :: entityThread where
  "threadA = \<lparr>thread_id = ''a'', thread_about = ''<#E/table/t1>'', thread_message = ''hello'',
              thread_threadTs = 100, thread_createdBy = ''dee'',
              thread_posts = [reply1, reply2, reply3], thread_postsCount = 5\<rparr>"

definition threadB :: entityThread where
  "threadB = \<lparr>thread_id = ''b'', thread_about = ''<#E/table/t2>'', thread_message = ''bye'',
              thread_threadTs = 50, thread_createdBy = ''ann'',
              thread_posts = [reply1, reply2], thread_postsCount = 2\<rparr>"

definition threadC :: entityThread where
  "threadC = \<lparr>thread_id = ''c'', thread_about = ''<#E/table/t3>'', thread_message = ''new'',
              thread_threadTs = 10, thread_createdBy = ''bob'',
              thread_posts = [], thread_postsCount = 0\<rparr>"

text \<open>Thread \<open>a\<close> as the backend returns it after one more reply.\<close>

definition threadA_refreshed :: entityThread where
  "threadA_refreshed =
     threadA\<lparr>thread_posts := [reply2, reply3, reply1], thread_postsCount := 6\<rparr>"

text \<open>
  The state after a reply region was opened on thread \<open>a\<close> and the owner then supplied a
  refreshed list: the panel was never opened.
\<close>

definition refreshedState :: feedState where
  "refreshedState = feedListEffect [threadA, threadB] (onThreadIdSelect ''a'' initialFeedState)"

text \<open>A grouping that labels every thread with the same day.\<close>

definition allToday :: "entityThread list \<Rightarrow> (entityThread \<times> string) list \<times> string list" where
  "allToday feedList = (map (\<lambda>f. (f, ''Today'')) feedList, [''Today''])"

text \<open>A handler of the owner that records each call.\<close>

definition recordCall :: "string \<Rightarrow> string \<Rightarrow> (string \<times> string) list \<Rightarrow> (string \<times> string) list" where
  "recordCall val ident calls = calls @ [(val, ident)]"

section \<open>EntityVersionTimeLine: JavaScript values\<close>

text \<open>
  The component decodes each revision with \<^verbatim>\<open>JSON.parse\<close> and reads the decoded value
  with \<^verbatim>\<open>?.\<close>, \<^verbatim>\<open>parseFloat\<close> and \<^verbatim>\<open>toFixed(1)\<close>. These are the language's own
  operations; they are modelled here as far as the component uses them.

  A number is \<^verbatim>\<open>NaN\<close>, an infinity, or a finite decimal: \<open>Finite m e\<close> stands for
  \<open>m \<times> 10\<^sup>e\<close>. Every value a decimal literal denotes is kept exactly: the rounding of a
  literal to the nearest binary double, and its overflow to an infinity, are not
  modelled, so \<^verbatim>\<open>toFixed\<close> rounds the decimal itself. The general theorems below hold
  whatever the format of a finite number is; only the examples evaluate it. A string is
  the list of its characters, each a code unit below 256.
\<close>

datatype jsNumber = NaN | PosInfinity | NegInfinity | Finite int int

datatype json =
    JNull
  | JBool bool
  | JNumber jsNumber
  | JString string
  | JArray "json list"
  | JObject "(string \<times> json) list"

text \<open>
  \<^verbatim>\<open>x?.key\<close> for the keys the component reads (\<^verbatim>\<open>changeDescription\<close>,
  \<^verbatim>\<open>previousVersion\<close>, \<^verbatim>\<open>version\<close>): \<open>None\<close> is \<^verbatim>\<open>undefined\<close>. On \<^verbatim>\<open>undefined\<close> and
  \<^verbatim>\<open>null\<close> the chain yields \<^verbatim>\<open>undefined\<close>; numbers, strings, booleans and arrays have no
  property of these names; an object yields the value stored under the key, if any.
\<close>

fun getProp :: "json option \<Rightarrow> string \<Rightarrow> json option" where
  "getProp (Some (JObject props)) key = map_of props key"
| "getProp _ key = None"

definition isWhiteSpace :: "char \<Rightarrow> bool" where
  "isWhiteSpace c =
     (c \<in> set [CHR 0x09, CHR 0x0A, CHR 0x0B, CHR 0x0C, CHR 0x0D, CHR '' '', CHR 0xA0])"

definition isDigit :: "char \<Rightarrow> bool" where
  "isDigit c = (c \<in> set ''0123456789'')"

definition digitValue :: "char \<Rightarrow> int" where
  "digitValue c = of_char c - 48"

definition decimalValue :: "string \<Rightarrow> int" where
  "decimalValue ds = foldl (\<lambda>acc c. 10 * acc + digitValue c) 0 ds"

text \<open>
  The exponent part of a decimal literal at the head of \<open>rest\<close>: \<^verbatim>\<open>e\<close> or \<^verbatim>\<open>E\<close>, an
  optional sign and at least one digit. Anything else is not part of the literal and
  counts as exponent 0.
\<close>

definition exponentPart :: "string \<Rightarrow> int" where
  "exponentPart rest =
     (case rest of
        [] \<Rightarrow> 0
      | c # cs \<Rightarrow>
          if c = CHR ''e'' \<or> c = CHR ''E''
          then (let negative = (case cs of d # _ \<Rightarrow> d = CHR ''-'' | [] \<Rightarrow> False);
                    unsigned = (case cs of
                                  d # ds \<Rightarrow> if d = CHR ''+'' \<or> d = CHR ''-'' then ds else cs
                                | [] \<Rightarrow> []);
                    digits = takeWhile isDigit unsigned
                in if digits = [] then 0
                   else if negative then - decimalValue digits
                   else decimalValue digits)
          else 0)"

text \<open>
  \<^verbatim>\<open>parseFloat\<close> of a string: leading white space is dropped, then the longest prefix
  that is a decimal literal is read (sign, \<^verbatim>\<open>Infinity\<close>, or digits with an optional
  fraction and exponent); without such a prefix the result is \<^verbatim>\<open>NaN\<close>.
\<close>

definition parseFloatString :: "string \<Rightarrow> jsNumber" where
  "parseFloatString inputString =
     (let trimmed = dropWhile isWhiteSpace inputString;
          negative = (case trimmed of c # _ \<Rightarrow> c = CHR ''-'' | [] \<Rightarrow> False);
          unsigned = (case trimmed of
                        c # cs \<Rightarrow> if c = CHR ''+'' \<or> c = CHR ''-'' then cs else trimmed
                      | [] \<Rightarrow> [])
      in if prefix ''Infinity'' unsigned
         then (if negative then NegInfinity else PosInfinity)
         else
           (let intDigits = takeWhile isDigit unsigned;
                afterInt = dropWhile isDigit unsigned;
                hasPoint = (case afterInt of c # _ \<Rightarrow> c = CHR ''.'' | [] \<Rightarrow> False);
                fracDigits = (if hasPoint then takeWhile isDigit (tl afterInt) else []);
                afterFrac = (if hasPoint then dropWhile isDigit (tl afterInt) else afterInt)
            in if intDigits = [] \<and> fracDigits = [] then NaN
               else
                 (let mantissa = decimalValue (intDigits @ fracDigits);
                      exponent = exponentPart afterFrac - int (length fracDigits)
                  in Finite (if negative then - mantissa else mantissa) exponent)))"

text \<open>
  Errors the modelled operations throw: \<^verbatim>\<open>JSON.parse\<close> a \<^verbatim>\<open>SyntaxError\<close>, the
  conversion of an object to a string a \<^verbatim>\<open>TypeError\<close>.
\<close>

datatype jsError = SyntaxError | TypeError

text \<open>
  \<^verbatim>\<open>parseFloat\<close> converts its argument to a string first. For a decoded value this
  throws in one case: an object with a key \<^verbatim>\<open>toString\<close>, because the value stored there
  is no function and \<^verbatim>\<open>Object.prototype.valueOf\<close> returns the object itself. An array
  prints all its elements, so its conversion throws when that of an element does.
\<close>

fun toStringThrows :: "json \<Rightarrow> bool" where
  "toStringThrows (JObject props) = (''toString'' \<in> fst ` set props)"
| "toStringThrows (JArray xs) = list_ex toStringThrows xs"
| "toStringThrows _ = False"

text \<open>
  The number \<^verbatim>\<open>parseFloat\<close> reads from a value whose conversion does not throw. A number
  prints to a literal that reads back as the same number. \<^verbatim>\<open>null\<close>, booleans and
  objects print to text that starts no literal. An array prints its elements separated
  by commas, so only its first element can contribute a literal (a \<^verbatim>\<open>null\<close> element
  prints as nothing).
\<close>

fun parseFloatValue :: "json \<Rightarrow> jsNumber" where
  "parseFloatValue (JNumber n) = n"
| "parseFloatValue (JString s) = parseFloatString s"
| "parseFloatValue (JArray (x # xs)) = parseFloatValue x"
| "parseFloatValue _ = NaN"

text \<open>\<^verbatim>\<open>parseFloat(x)\<close>; \<^verbatim>\<open>undefined\<close> prints as text that starts no literal.\<close>

definition parseFloat :: "json option \<Rightarrow> jsError + jsNumber" where
  "parseFloat x =
     (case x of
        None \<Rightarrow> Inr NaN
      | Some v \<Rightarrow> if toStringThrows v then Inl TypeError else Inr (parseFloatValue v))"

text \<open>The decimal digits of a number that is not negative.\<close>

function showNat :: "int \<Rightarrow> string" where
  "showNat n =
     (if n < 10 then [''0123456789'' ! nat n]
      else showNat (n div 10) @ [''0123456789'' ! nat (n mod 10)])"
  by pat_completeness auto
termination
proof (relation "measure nat")
  show "wf (measure nat)" by simp
next
  fix n :: int
  assume "\<not> n < 10"
  then have "nat (n div 10) < nat n" by linarith
  then show "(n div 10, n) \<in> measure nat" by simp
qed

declare showNat.simps [simp del]

text \<open>
  \<^verbatim>\<open>toFixed(1)\<close>. For \<open>a \<times> 10\<^sup>e\<close> below \<open>10\<^sup>2\<^sup>1\<close>, \<open>tenths a e\<close> is the integer \<open>n\<close> with
  \<open>n / 10\<close> nearest to the value, the larger one on a tie. From \<open>10\<^sup>2\<^sup>1\<close> on the method
  prints like \<^verbatim>\<open>String\<close>, in exponent notation.
\<close>

definition tenths :: "int \<Rightarrow> int \<Rightarrow> int" where
  "tenths a e =
     (if - 1 \<le> e then a * 10 ^ nat (e + 1)
      else (2 * a + 10 ^ nat (- e - 1)) div (2 * 10 ^ nat (- e - 1)))"

definition atLeast1e21 :: "int \<Rightarrow> int \<Rightarrow> bool" where
  "atLeast1e21 a e =
     (if 0 \<le> e then 10 ^ 21 \<le> a * 10 ^ nat e else 10 ^ (21 + nat (- e)) \<le> a)"

definition exponentialString :: "int \<Rightarrow> int \<Rightarrow> string" where
  "exponentialString a e =
     (let digits = showNat a;
          n = int (length digits) + e;
          s = rev (dropWhile (\<lambda>c. c = CHR ''0'') (rev digits))
      in (if length s = 1 then s else hd s # CHR ''.'' # tl s)
         @ ''e+'' @ showNat (n - 1))"

fun toFixed1 :: "jsNumber \<Rightarrow> string" where
  "toFixed1 NaN = ''NaN''"
| "toFixed1 PosInfinity = ''Infinity''"
| "toFixed1 NegInfinity = ''-Infinity''"
| "toFixed1 (Finite m e) =
     (let s = (if m < 0 then ''-'' else '''');
          a = \<bar>m\<bar>
      in if atLeast1e21 a e then s @ exponentialString a e
         else s @ showNat (tenths a e div 10) @ ''.'' @ showNat (tenths a e mod 10))"

text \<open>\<^verbatim>\<open>parseFloat(x).toFixed(1).toString()\<close>.\<close>

definition toFixedString :: "json option \<Rightarrow> jsError + string" where
  "toFixedString x = (case parseFloat x of Inl e \<Rightarrow> Inl e | Inr n \<Rightarrow> Inr (toFixed1 n))"

section \<open>EntityVersionTimeLine: the component\<close>

text \<open>
  An element of \<^verbatim>\<open>versionList.versions\<close> is used in one way only: it is handed to
  \<^verbatim>\<open>JSON.parse\<close>. It is therefore modelled by what \<^verbatim>\<open>JSON.parse\<close> does with it: either
  it is the JSON text of a value, or it is not JSON and \<^verbatim>\<open>JSON.parse\<close> throws a
  \<^verbatim>\<open>SyntaxError\<close>. A decoded object holds each key once.
\<close>

datatype versionEntry = JSONText json | NotJSON

fun JSON_parse :: "versionEntry \<Rightarrow> jsError + json" where
  "JSON_parse (JSONText v) = Inr v"
| "JSON_parse NotJSON = Inl SyntaxError"

text \<open>
  \<^verbatim>\<open>Array.prototype.filter\<close> and \<^verbatim>\<open>Array.prototype.map\<close> with a callback that may throw:
  the elements are visited from left to right, and the first exception ends the call.
  \<open>arrayMap\<close> passes the index as well.
\<close>

fun arrayFilter :: "('a \<Rightarrow> jsError + bool) \<Rightarrow> 'a list \<Rightarrow> jsError + 'a list" where
  "arrayFilter f [] = Inr []"
| "arrayFilter f (x # xs) =
     (case f x of
        Inl e \<Rightarrow> Inl e
      | Inr keep \<Rightarrow>
          (case arrayFilter f xs of
             Inl e \<Rightarrow> Inl e
           | Inr ys \<Rightarrow> Inr (if keep then x # ys else ys)))"

fun arrayMap :: "(nat \<Rightarrow> 'a \<Rightarrow> jsError + 'b) \<Rightarrow> nat \<Rightarrow> 'a list \<Rightarrow> jsError + 'b list" where
  "arrayMap f i [] = Inr []"
| "arrayMap f i (x # xs) =
     (case f i x of
        Inl e \<Rightarrow> Inl e
      | Inr y \<Rightarrow>
          (case arrayMap f (Suc i) xs of
             Inl e \<Rightarrow> Inl e
           | Inr ys \<Rightarrow> Inr (y # ys)))"

text \<open>\<^verbatim>\<open>currV?.changeDescription?.previousVersion\<close> and \<^verbatim>\<open>currV?.version\<close>.\<close>

definition previousVersionOf :: "json \<Rightarrow> json option" where
  "previousVersionOf currV = getProp (getProp (Some currV) ''changeDescription'') ''previousVersion''"

definition versionOf :: "json \<Rightarrow> json option" where
  "versionOf currV = getProp (Some currV) ''version''"

text \<open>
  The call that occurs three times in \<^verbatim>\<open>getVersionList\<close> (lines 38-43, 51-56, 72-77):
  \<^verbatim>\<open>isMajorVersion\<close> applied to the previous and the current version, each passed through
  \<^verbatim>\<open>parseFloat(...).toFixed(1).toString()\<close>, the previous version first.
  \<^verbatim>\<open>isMajorVersion\<close> is imported from \<^verbatim>\<open>utils/EntityVersionUtils\<close>, which is not among
  the sources, so the component takes it as the parameter \<open>isMajor\<close>.
\<close>

definition isMajorCall :: "(string \<Rightarrow> string \<Rightarrow> bool) \<Rightarrow> json \<Rightarrow> jsError + bool" where
  "isMajorCall isMajor currV =
     (case toFixedString (previousVersionOf currV) of
        Inl e \<Rightarrow> Inl e
      | Inr prev \<Rightarrow>
          (case toFixedString (versionOf currV) of
             Inl e \<Rightarrow> Inl e
           | Inr ver \<Rightarrow> Inr (isMajor prev ver)))"

text \<open>The callback of the \<^verbatim>\<open>major\<close> filter (lines 35-44).\<close>

definition entryIsMajor :: "(string \<Rightarrow> string \<Rightarrow> bool) \<Rightarrow> versionEntry \<Rightarrow> jsError + bool" where
  "entryIsMajor isMajor v =
     (case JSON_parse v of
        Inl e \<Rightarrow> Inl e
      | Inr currV \<Rightarrow> isMajorCall isMajor currV)"

text \<open>The callback of the \<^verbatim>\<open>minor\<close> filter (lines 48-57): the negated call.\<close>

definition entryIsMinor :: "(string \<Rightarrow> string \<Rightarrow> bool) \<Rightarrow> versionEntry \<Rightarrow> jsError + bool" where
  "entryIsMinor isMajor v =
     (case JSON_parse v of
        Inl e \<Rightarrow> Inl e
      | Inr currV \<Rightarrow>
          (case isMajorCall isMajor currV of
             Inl e \<Rightarrow> Inl e
           | Inr major \<Rightarrow> Inr (\<not> major)))"

text \<open>
  The two \<^verbatim>\<open>useState\<close> cells (lines 27-28). \<^verbatim>\<open>versionType\<close> is a string at run time:
  \<^verbatim>\<open>handleVersionTypeSelection\<close> stores whatever non-empty string the dropdown hands over.
\<close>

record timelineState =
  listVisible :: bool
  versionType :: string

definition initialTimelineState :: timelineState where
  "initialTimelineState = \<lparr>listVisible = False, versionType = ''all''\<rparr>"

text \<open>The button's \<^verbatim>\<open>onClick\<close> (line 161).\<close>

definition toggleListVisible :: "timelineState \<Rightarrow> timelineState" where
  "toggleListVisible st = st\<lparr>listVisible := \<not> listVisible st\<rparr>"

text \<open>
  Lines 140-148. The optional argument \<^verbatim>\<open>value\<close> is \<open>None\<close> when it is \<^verbatim>\<open>undefined\<close>;
  \<^verbatim>\<open>if (value)\<close> holds for a string that is not empty.
\<close>

definition handleVersionTypeSelection :: "string option \<Rightarrow> timelineState \<Rightarrow> timelineState" where
  "handleVersionTypeSelection val st =
     (case val of
        Some v \<Rightarrow> (if v \<noteq> '''' then st\<lparr>versionType := v\<rparr> else st)
      | None \<Rightarrow> st)\<lparr>listVisible := False\<rparr>"

text \<open>
  The \<^verbatim>\<open>switch\<close> of \<^verbatim>\<open>getVersionList\<close> (lines 30-65): the list \<^verbatim>\<open>versionTypeList\<close> that is
  rendered. \<^verbatim>\<open>versionList.versions ?? []\<close> is the empty list when the prop carries no
  \<^verbatim>\<open>versions\<close>. Every other string than \<^verbatim>\<open>major\<close> and \<^verbatim>\<open>minor\<close> takes the \<^verbatim>\<open>default\<close>
  branch, which shares its body with \<^verbatim>\<open>all\<close>.
\<close>

definition versionTypeList ::
  "(string \<Rightarrow> string \<Rightarrow> bool) \<Rightarrow> string \<Rightarrow> versionEntry list option
     \<Rightarrow> jsError + versionEntry list" where
  "versionTypeList isMajor vType versions =
     (let list = (case versions of Some l \<Rightarrow> l | None \<Rightarrow> []) in
      if vType = ''major'' then arrayFilter (entryIsMajor isMajor) list
      else if vType = ''minor'' then arrayFilter (entryIsMinor isMajor) list
      else Inr list)"

text \<open>
  The closure \<^verbatim>\<open>majorVersionChecks\<close> (lines 70-79):
  \<^verbatim>\<open>isMajorVersion(...) && versionType === 'all'\<close>.
\<close>

definition majorVersionChecks ::
  "(string \<Rightarrow> string \<Rightarrow> bool) \<Rightarrow> string \<Rightarrow> json \<Rightarrow> jsError + bool" where
  "majorVersionChecks isMajor vType currV =
     (case isMajorCall isMajor currV of
        Inl e \<Rightarrow> Inl e
      | Inr major \<Rightarrow> Inr (major \<and> vType = ''all''))"

text \<open>
  A rendered row (lines 81-131): the extra connector above the first row, the label
  \<^verbatim>\<open>v{parseFloat(currV?.version).toFixed(1)}\<close> and whether the "Major" badge follows it.
  The selection highlight, the change summary, the author and the date of a row are not
  part of the model; a row the model renders is the row of the component whenever those
  parts render.
\<close>

record timelineRow =
  row_connector :: bool
  row_label :: string
  row_major :: bool

definition renderRow ::
  "(string \<Rightarrow> string \<Rightarrow> bool) \<Rightarrow> string \<Rightarrow> nat \<Rightarrow> json \<Rightarrow> jsError + timelineRow" where
  "renderRow isMajor vType i currV =
     (case toFixedString (versionOf currV) of
        Inl e \<Rightarrow> Inl e
      | Inr ver \<Rightarrow>
          (case majorVersionChecks isMajor vType currV of
             Inl e \<Rightarrow> Inl e
           | Inr badge \<Rightarrow>
               Inr \<lparr>row_connector = (i = 0), row_label = ''v'' @ ver, row_major = badge\<rparr>))"

text \<open>
  What \<^verbatim>\<open>getVersionList\<close> returns: the rows, or the placeholder
  \<^verbatim>\<open>No ${capitalize(versionType)} versions available\<close>, which is kept as the version type
  it names.
\<close>

datatype timeline = VersionRows "timelineRow list" | NoVersions string

definition getVersionList ::
  "(string \<Rightarrow> string \<Rightarrow> bool) \<Rightarrow> string \<Rightarrow> versionEntry list option \<Rightarrow> jsError + timeline" where
  "getVersionList isMajor vType versions =
     (case versionTypeList isMajor vType versions of
        Inl e \<Rightarrow> Inl e
      | Inr vtl \<Rightarrow>
          if length vtl \<noteq> 0
          then (case arrayMap
                       (\<lambda>i v. case JSON_parse v of
                                 Inl e \<Rightarrow> Inl e
                               | Inr currV \<Rightarrow> renderRow isMajor vType i currV)
                       0 vtl of
                  Inl e \<Rightarrow> Inl e
                | Inr rows \<Rightarrow> Inr (VersionRows rows))
          else Inr (NoVersions vType))"

subsection \<open>The version predicate\<close>

text \<open>
  Modelled from the spec: the integer portion of a formatted version, as
  \<^verbatim>\<open>isMajorVersion\<close> compares it, is what stands before the decimal point.
\<close>

definition integerPortion :: "string \<Rightarrow> string" where
  "integerPortion s = takeWhile (\<lambda>c. c \<noteq> CHR ''.'') s"

text \<open>
  Modelled from the spec: \<^verbatim>\<open>isMajorVersion\<close> of \<^verbatim>\<open>utils/EntityVersionUtils\<close> is not among
  the sources. The specification gives its contract: both versions are rounded to one
  decimal place and formatted as strings, and the result is true iff their integer
  portions differ; a version that does not parse is \<^verbatim>\<open>NaN\<close> and compares as not major.
\<close>

definition isMajorVersion :: "string \<Rightarrow> string \<Rightarrow> bool" where
  "isMajorVersion prev current =
     (let p = parseFloatString prev;
          c = parseFloatString current
      in if p = NaN \<or> c = NaN then False
         else integerPortion (toFixed1 p) \<noteq> integerPortion (toFixed1 c))"

subsection \<open>Revisions the filters can read\<close>

text \<open>
  The filter callbacks throw on an element that is not JSON and on one whose version or
  previous version cannot be converted to a string. \<open>readable\<close> holds of the other
  elements; a serialised revision record, whose versions are numbers or strings, is one.
\<close>

definition convertible :: "json option \<Rightarrow> bool" where
  "convertible x = (case x of None \<Rightarrow> True | Some v \<Rightarrow> \<not> toStringThrows v)"

definition readable :: "versionEntry \<Rightarrow> bool" where
  "readable v =
     (case v of
        NotJSON \<Rightarrow> False
      | JSONText currV \<Rightarrow> convertible (previousVersionOf currV) \<and> convertible (versionOf currV))"

subsection \<open>Example history\<close>

definition record1 :: "jsNumber \<Rightarrow> jsNumber \<Rightarrow> json" where
  "record1 prev ver =
     JObject [(''version'', JNumber ver),
              (''updatedBy'', JString ''admin''),
              (''changeDescription'', JObject [(''previousVersion'', JNumber prev)])]"

text \<open>Version 0.1, the first one: it has no change description.\<close>

definition record0 :: json where
  "record0 = JObject [(''version'', JNumber (Finite 1 (- 1))), (''updatedBy'', JString ''admin'')]"

text \<open>Versions 1.2, 0.2 and 0.1, newest first.\<close>

definition exampleVersions :: "versionEntry list" where
  "exampleVersions =
     [JSONText (record1 (Finite 2 (- 1)) (Finite 12 (- 1))),
      JSONText (record1 (Finite 1 (- 1)) (Finite 2 (- 1))),
      JSONText record0]"

section \<open>Selecting a thread for the panel\<close>

lemma find_thread_id:
  "find (\<lambda>f. thread_id f = ident) feedList = Some t \<Longrightarrow> t \<in> set feedList \<and> thread_id t = ident"
  by (induction feedList) (auto split: if_splits)

lemma find_thread_none:
  "(find (\<lambda>f. thread_id f = ident) feedList = None) = (ident \<notin> thread_id ` set feedList)"
  by (induction feedList) auto

text \<open>
  C7. \<^verbatim>\<open>onThreadSelect\<close> stores the thread found under the id (the first one in
  \<^verbatim>\<open>feedList\<close>) as \<^verbatim>\<open>selectedThread\<close> and touches nothing else; when no thread of
  \<^verbatim>\<open>feedList\<close> has the id, the state is returned as it was. The function is total: there is
  no error branch.
\<close>

theorem onThreadSelect_lookup:
  "(ident \<in> thread_id ` set feedList \<longrightarrow>
      (\<exists>t \<in> set feedList. thread_id t = ident
         \<and> find (\<lambda>f. thread_id f = ident) feedList = Some t
         \<and> onThreadSelect feedList ident st = st\<lparr>selectedThread := Some t\<rparr>))
   \<and> (ident \<notin> thread_id ` set feedList \<longrightarrow> onThreadSelect feedList ident st = st)"
proof (cases "find (\<lambda>f. thread_id f = ident) feedList")
  case None
  moreover from None have "ident \<notin> thread_id ` set feedList"
    by (simp add: find_thread_none)
  ultimately show ?thesis
    by (simp add: onThreadSelect_def)
next
  case (Some t)
  from find_thread_id [OF Some] have "t \<in> set feedList" "thread_id t = ident"
    by simp_all
  with Some show ?thesis
    by (auto simp: onThreadSelect_def)
qed

theorem onThreadSelect_lookup_witness:
  "''b'' \<in> thread_id ` set [threadA, threadB]
   \<and> onThreadSelect [threadA, threadB] ''b'' initialFeedState
       = initialFeedState\<lparr>selectedThread := Some threadB\<rparr>
   \<and> ''z'' \<notin> thread_id ` set [threadA, threadB]
   \<and> onThreadSelect [threadA, threadB] ''z'' initialFeedState = initialFeedState"
  using onThreadSelect_lookup [of "''b''" "[threadA, threadB]" initialFeedState]
    onThreadSelect_lookup [of "''z''" "[threadA, threadB]" initialFeedState]
  by (simp add: threadA_def threadB_def)

section \<open>Re-resolving the selection when the feed list changes\<close>

text \<open>
  C5. The effect on a change of \<^verbatim>\<open>feedList\<close> is the by-id lookup with the retained
  \<^verbatim>\<open>selctedThreadId\<close> in the new list. When the new list holds a thread with that id,
  \<^verbatim>\<open>selectedThread\<close> becomes that thread, taken from the new list (the first with the id),
  and the id and the panel flag stay as they were; no other event is involved.
\<close>

theorem feedListEffect_resolves:
  "feedListEffect newList st = onThreadSelect newList (selctedThreadId st) st
   \<and> (selctedThreadId st \<in> thread_id ` set newList \<longrightarrow>
        (\<exists>t \<in> set newList. thread_id t = selctedThreadId st
           \<and> find (\<lambda>f. thread_id f = selctedThreadId st) newList = Some t
           \<and> selectedThread (feedListEffect newList st) = Some t
           \<and> selctedThreadId (feedListEffect newList st) = selctedThreadId st
           \<and> isPanelOpen (feedListEffect newList st) = isPanelOpen st))"
proof (intro conjI impI)
  show "feedListEffect newList st = onThreadSelect newList (selctedThreadId st) st"
    by (simp add: feedListEffect_def)
next
  assume "selctedThreadId st \<in> thread_id ` set newList"
  then obtain t where t: "find (\<lambda>f. thread_id f = selctedThreadId st) newList = Some t"
    using find_thread_none [of "selctedThreadId st" newList]
    by (cases "find (\<lambda>f. thread_id f = selctedThreadId st) newList") auto
  from find_thread_id [OF t] have "t \<in> set newList" "thread_id t = selctedThreadId st"
    by simp_all
  with t show "\<exists>t \<in> set newList. thread_id t = selctedThreadId st
           \<and> find (\<lambda>f. thread_id f = selctedThreadId st) newList = Some t
           \<and> selectedThread (feedListEffect newList st) = Some t
           \<and> selctedThreadId (feedListEffect newList st) = selctedThreadId st
           \<and> isPanelOpen (feedListEffect newList st) = isPanelOpen st"
    by (auto simp: feedListEffect_def onThreadSelect_def)
qed

theorem feedListEffect_resolves_witness:
  "selctedThreadId (onThreadIdSelect ''a'' (initialFeedState\<lparr>selectedThread := Some threadA\<rparr>))
     \<in> thread_id ` set [threadB, threadA_refreshed]
   \<and> selectedThread
        (feedListEffect [threadB, threadA_refreshed]
           (onThreadIdSelect ''a'' (initialFeedState\<lparr>selectedThread := Some threadA\<rparr>)))
       = Some threadA_refreshed"
  using feedListEffect_resolves
    [of "[threadB, threadA_refreshed]"
        "onThreadIdSelect ''a'' (initialFeedState\<lparr>selectedThread := Some threadA\<rparr>)"]
  by (simp add: feedListEffect_def onThreadSelect_def onThreadIdSelect_def initialFeedState_def
        threadA_refreshed_def threadA_def threadB_def)

section \<open>Closing the panel\<close>

text \<open>
  C6, as the code has it. \<^verbatim>\<open>onCancel\<close>, which the \<^verbatim>\<open>Escape\<close> key also runs, clears
  \<^verbatim>\<open>selectedThread\<close> and sets \<^verbatim>\<open>isPanelOpen\<close> to false in every state and keeps
  \<^verbatim>\<open>selctedThreadId\<close>. It is idempotent, and it leaves the state unchanged exactly when
  \<^verbatim>\<open>selectedThread\<close> is already empty and \<^verbatim>\<open>isPanelOpen\<close> already false. Another key
  changes nothing.
\<close>

theorem escape_clears_panel:
  "escapeKeyHandler ''Escape'' st = onCancel st
   \<and> selectedThread (onCancel st) = None
   \<and> isPanelOpen (onCancel st) = False
   \<and> selctedThreadId (onCancel st) = selctedThreadId st
   \<and> onCancel (onCancel st) = onCancel st
   \<and> (onCancel st = st) = (selectedThread st = None \<and> \<not> isPanelOpen st)
   \<and> (key \<noteq> ''Escape'' \<longrightarrow> escapeKeyHandler key st = st)"
proof -
  have "(onCancel st = st) = (selectedThread st = None \<and> \<not> isPanelOpen st)"
  proof
    assume "onCancel st = st"
    then have "selectedThread (onCancel st) = selectedThread st"
      and "isPanelOpen (onCancel st) = isPanelOpen st"
      by simp_all
    then show "selectedThread st = None \<and> \<not> isPanelOpen st"
      by (simp add: onCancel_def)
  next
    assume "selectedThread st = None \<and> \<not> isPanelOpen st"
    then show "onCancel st = st"
      by (simp add: onCancel_def)
  qed
  then show ?thesis
    by (simp add: escapeKeyHandler_def onCancel_def)
qed

theorem escape_clears_panel_witness:
  "escapeKeyHandler ''Escape'' (viewAllClick [threadA] (onThreadIdSelect ''a'' initialFeedState))
     = \<lparr>selectedThread = None, selctedThreadId = ''a'', isPanelOpen = False\<rparr>
   \<and> ''Enter'' \<noteq> ''Escape''
   \<and> escapeKeyHandler ''Enter'' (viewAllClick [threadA] (onThreadIdSelect ''a'' initialFeedState))
     = viewAllClick [threadA] (onThreadIdSelect ''a'' initialFeedState)"
  using escape_clears_panel
    [of "viewAllClick [threadA] (onThreadIdSelect ''a'' initialFeedState)" "''Enter''"]
  by (simp add: viewAllClick_def onThreadIdSelect_def onThreadSelect_def onViewMore_def
        onCancel_def initialFeedState_def threadA_def)

text \<open>
  The claim as worded says that \<^verbatim>\<open>Escape\<close> with the panel closed changes nothing. In
  \<open>refreshedState\<close> the panel flag is false and nothing is rendered as a panel, yet the
  lookup of the feed-list effect has stored thread \<open>a\<close>, and \<^verbatim>\<open>Escape\<close> clears it.
\<close>

theorem escape_closed_panel_counterexample:
  "isPanelOpen refreshedState = False
   \<and> selectedThread refreshedState = Some threadA
   \<and> ActivityFeedPanel threadA
       \<notin> set (ActivityFeedList allToday [threadA, threadB] True False refreshedState)
   \<and> escapeKeyHandler ''Escape'' refreshedState \<noteq> refreshedState"
  by (simp add: refreshedState_def feedListEffect_def onThreadIdSelect_def onThreadSelect_def
        initialFeedState_def escapeKeyHandler_def onCancel_def ActivityFeedList_def
        allToday_def FeedListBody_def feedFragment_def threadA_def threadB_def)

section \<open>Posting from the composer\<close>

text \<open>
  C10. \<^verbatim>\<open>postFeed\<close> hands the message to the owner's handler with the retained
  \<^verbatim>\<open>selctedThreadId\<close>. In the initial state and after \<^verbatim>\<open>onThreadIdDeselect\<close> that id is
  the empty string. Without a handler nothing happens: the owner's state is returned as it
  was, and there is no error branch.
\<close>

theorem postFeed_forwards:
  "postFeed (Some handler) st val w = handler val (selctedThreadId st) w
   \<and> postFeed (Some handler) initialFeedState val w = handler val '''' w
   \<and> postFeed (Some handler) (onThreadIdDeselect st) val w = handler val '''' w
   \<and> postFeed (Some handler) (onThreadIdSelect ident st) val w = handler val ident w
   \<and> postFeed None st val w = w"
  by (simp add: postFeed_def initialFeedState_def onThreadIdDeselect_def onThreadIdSelect_def)

lemma postFeed_example:
  "postFeed (Some recordCall) (onThreadIdSelect ''a'' initialFeedState) ''thanks'' []
     = [(''thanks'', ''a'')]
   \<and> postFeed (Some recordCall) initialFeedState ''thanks'' [] = [(''thanks'', '''')]"
  by (simp add: postFeed_def recordCall_def onThreadIdSelect_def initialFeedState_def)

section \<open>The empty feed\<close>

text \<open>
  C9. With an empty \<^verbatim>\<open>feedList\<close> the component renders the onboarding placeholder and
  nothing else, whatever the grouping utility returns, whatever the state and the flags:
  no separator, no thread card and no side panel.
\<close>

theorem ActivityFeedList_empty:
  "ActivityFeedList getFeedListWithRelativeDays [] withSidePanel isEntityFeed st = [Onboarding]"
  by (simp add: ActivityFeedList_def split: prod.splits)

section \<open>The reply region of the expanded thread\<close>

text \<open>
  C2, as the code has it. For the thread whose id is the selected one, what follows its
  card is one region: first the link "View all (N) replies" when \<^verbatim>\<open>postsCount\<close> exceeds
  3, the count text when it is 1 to 3, and nothing when it is 0 or less; then, whatever
  the count, the reply list over \<^verbatim>\<open>feed.posts\<close> and the composer. The replies shown
  inline are therefore exactly \<^verbatim>\<open>feed.posts\<close>. A thread that is not selected has no
  region.
\<close>

theorem expanded_thread_region:
  "(selctedId = thread_id feed \<and> 3 < thread_postsCount feed \<longrightarrow>
      tl (feedFragment isEntityFeed selctedId feed)
        = [ExpandedThread [ViewAllReplies (thread_postsCount feed),
                           LatestReplyFeedList (thread_posts feed), ActivityFeedEditor]])
   \<and> (selctedId = thread_id feed \<and> 0 < thread_postsCount feed \<and> thread_postsCount feed \<le> 3 \<longrightarrow>
      tl (feedFragment isEntityFeed selctedId feed)
        = [ExpandedThread [ReplyCount (thread_postsCount feed)
                             (if 1 < thread_postsCount feed then ''replies'' else ''reply''),
                           LatestReplyFeedList (thread_posts feed), ActivityFeedEditor]])
   \<and> (selctedId = thread_id feed \<and> thread_postsCount feed \<le> 0 \<longrightarrow>
      tl (feedFragment isEntityFeed selctedId feed)
        = [ExpandedThread [LatestReplyFeedList (thread_posts feed), ActivityFeedEditor]])
   \<and> (selctedId = thread_id feed \<longrightarrow>
      concat (map inlineReplies (feedFragment isEntityFeed selctedId feed)) = thread_posts feed)
   \<and> (selctedId \<noteq> thread_id feed \<longrightarrow> tl (feedFragment isEntityFeed selctedId feed) = [])"
  by (simp add: feedFragment_def Let_def)

theorem expanded_thread_region_witness:
  "tl (feedFragment False ''a'' threadA)
     = [ExpandedThread [ViewAllReplies 5, LatestReplyFeedList [reply1, reply2, reply3],
                        ActivityFeedEditor]]
   \<and> tl (feedFragment False ''b'' threadB)
     = [ExpandedThread [ReplyCount 2 ''replies'', LatestReplyFeedList [reply1, reply2],
                        ActivityFeedEditor]]
   \<and> tl (feedFragment False ''c'' threadC)
     = [ExpandedThread [LatestReplyFeedList [], ActivityFeedEditor]]
   \<and> concat (map inlineReplies (feedFragment False ''b'' threadB)) = [reply1, reply2]
   \<and> tl (feedFragment False ''a'' threadB) = []"
  using expanded_thread_region [of "''a''" threadA False]
    expanded_thread_region [of "''b''" threadB False]
    expanded_thread_region [of "''c''" threadC False]
    expanded_thread_region [of "''a''" threadB False]
  by (simp add: threadA_def threadB_def threadC_def)

text \<open>
  The claim as worded has no inline reply list beside the "View all" link. Thread \<open>a\<close>
  has five replies and is expanded: the link is rendered and so are the three posts the
  feed carries.
\<close>

theorem view_all_without_replies_counterexample:
  "thread_postsCount threadA = 5
   \<and> tl (feedFragment False ''a'' threadA)
     = [ExpandedThread [ViewAllReplies 5, LatestReplyFeedList [reply1, reply2, reply3],
                        ActivityFeedEditor]]
   \<and> concat (map inlineReplies (feedFragment False ''a'' threadA)) = [reply1, reply2, reply3]
   \<and> [reply1, reply2, reply3] \<noteq> []"
  by (simp add: feedFragment_def Let_def threadA_def)

section \<open>Choosing a filter\<close>

text \<open>
  C8. The selection callback of the dropdown always closes the dropdown. It stores the
  value as \<^verbatim>\<open>versionType\<close> exactly when a non-empty value is supplied; with no value or
  the empty string \<^verbatim>\<open>versionType\<close> stays as it was.
\<close>

theorem handleVersionTypeSelection_effect:
  "listVisible (handleVersionTypeSelection val st) = False
   \<and> (\<forall>v. val = Some v \<and> v \<noteq> '''' \<longrightarrow>
        versionType (handleVersionTypeSelection val st) = v)
   \<and> (val = None \<or> val = Some '''' \<longrightarrow>
        versionType (handleVersionTypeSelection val st) = versionType st)"
  by (cases val) (auto simp: handleVersionTypeSelection_def)

theorem handleVersionTypeSelection_effect_witness:
  "handleVersionTypeSelection (Some ''major'') (toggleListVisible initialTimelineState)
     = \<lparr>listVisible = False, versionType = ''major''\<rparr>
   \<and> handleVersionTypeSelection None (toggleListVisible initialTimelineState)
     = \<lparr>listVisible = False, versionType = ''all''\<rparr>
   \<and> handleVersionTypeSelection (Some '''') (toggleListVisible initialTimelineState)
     = \<lparr>listVisible = False, versionType = ''all''\<rparr>"
  using handleVersionTypeSelection_effect
      [of "Some ''major''" "toggleListVisible initialTimelineState"]
    handleVersionTypeSelection_effect [of None "toggleListVisible initialTimelineState"]
    handleVersionTypeSelection_effect [of "Some ''''" "toggleListVisible initialTimelineState"]
  by (simp add: handleVersionTypeSelection_def toggleListVisible_def initialTimelineState_def)

section \<open>Filtering the revisions\<close>

lemma arrayFilter_Inr:
  "(arrayFilter f xs = Inr ys) =
     ((\<forall>x \<in> set xs. \<exists>b. f x = Inr b) \<and> ys = filter (\<lambda>x. f x = Inr True) xs)"
proof (induction xs arbitrary: ys)
  case Nil
  show ?case by auto
next
  case (Cons x xs)
  show ?case
  proof (cases "f x")
    case (Inl e)
    then show ?thesis by auto
  next
    case (Inr keep)
    note fx = this
    show ?thesis
    proof (cases "arrayFilter f xs")
      case (Inl e)
      with Cons.IH [of "[]"] Cons.IH fx show ?thesis
        by (auto simp: fx)
    next
      case (Inr zs)
      with Cons.IH [of zs] fx show ?thesis
        by auto
    qed
  qed
qed

lemma arrayFilter_Inl:
  "(\<exists>e. arrayFilter f xs = Inl e) = (\<exists>x \<in> set xs. \<exists>e. f x = Inl e)"
proof (induction xs)
  case Nil
  show ?case by simp
next
  case (Cons x xs)
  then show ?case
    by (cases "f x"; cases "arrayFilter f xs") auto
qed

lemma toFixedString_Inr: "(\<exists>s. toFixedString x = Inr s) = convertible x"
  by (cases x) (auto simp: toFixedString_def parseFloat_def convertible_def)

lemma isMajorCall_Inr:
  "(\<exists>b. isMajorCall isMajor currV = Inr b)
     = (convertible (previousVersionOf currV) \<and> convertible (versionOf currV))"
  unfolding toFixedString_Inr [symmetric]
  by (auto simp: isMajorCall_def split: sum.splits)

text \<open>The callbacks return a value exactly on the readable elements.\<close>

lemma entryIsMajor_Inr: "(\<exists>b. entryIsMajor isMajor v = Inr b) = readable v"
  by (cases v) (simp_all add: entryIsMajor_def readable_def isMajorCall_Inr)

lemma entryIsMinor_Inr: "(entryIsMinor isMajor v = Inr b) = (entryIsMajor isMajor v = Inr (\<not> b))"
  by (cases v) (auto simp: entryIsMinor_def entryIsMajor_def split: sum.splits)

lemma versionTypeList_major:
  assumes "\<forall>v \<in> set list. readable v"
  shows "versionTypeList isMajor ''major'' (Some list)
           = Inr (filter (\<lambda>v. entryIsMajor isMajor v = Inr True) list)"
proof -
  from assms have "\<forall>v \<in> set list. \<exists>b. entryIsMajor isMajor v = Inr b"
    by (simp add: entryIsMajor_Inr)
  then have "arrayFilter (entryIsMajor isMajor) list
               = Inr (filter (\<lambda>v. entryIsMajor isMajor v = Inr True) list)"
    by (simp add: arrayFilter_Inr)
  then show ?thesis
    by (simp add: versionTypeList_def)
qed

lemma versionTypeList_minor:
  assumes "\<forall>v \<in> set list. readable v"
  shows "versionTypeList isMajor ''minor'' (Some list)
           = Inr (filter (\<lambda>v. entryIsMajor isMajor v = Inr False) list)"
proof -
  have "\<exists>b. entryIsMinor isMajor v = Inr b" if "v \<in> set list" for v
  proof -
    from that assms obtain b where "entryIsMajor isMajor v = Inr b"
      using entryIsMajor_Inr [of isMajor v] by blast
    then have "entryIsMinor isMajor v = Inr (\<not> b)"
      by (simp add: entryIsMinor_Inr)
    then show ?thesis ..
  qed
  then have "arrayFilter (entryIsMinor isMajor) list
               = Inr (filter (\<lambda>v. entryIsMinor isMajor v = Inr True) list)"
    by (simp add: arrayFilter_Inr)
  then show ?thesis
    by (simp add: versionTypeList_def entryIsMinor_Inr)
qed

lemma versionTypeList_default:
  "vType \<noteq> ''major'' \<Longrightarrow> vType \<noteq> ''minor'' \<Longrightarrow>
     versionTypeList isMajor vType versions = Inr (case versions of Some l \<Rightarrow> l | None \<Rightarrow> [])"
  by (simp add: versionTypeList_def)

text \<open>With an element that is not readable, both filters throw.\<close>

lemma versionTypeList_throws:
  assumes "v \<in> set list" and "\<not> readable v" and "vType = ''major'' \<or> vType = ''minor''"
  shows "\<exists>e. versionTypeList isMajor vType (Some list) = Inl e"
proof -
  from assms(2) obtain e where major: "entryIsMajor isMajor v = Inl e"
    using entryIsMajor_Inr [of isMajor v] by (cases "entryIsMajor isMajor v") auto
  have minor: "\<exists>e. entryIsMinor isMajor v = Inl e"
    using major entryIsMinor_Inr [of isMajor v] by (cases "entryIsMinor isMajor v") auto
  from assms(3) show ?thesis
  proof
    assume "vType = ''major''"
    with assms(1) major show ?thesis
      using arrayFilter_Inl [of "entryIsMajor isMajor" list]
      by (auto simp: versionTypeList_def)
  next
    assume "vType = ''minor''"
    with assms(1) minor show ?thesis
      using arrayFilter_Inl [of "entryIsMinor isMajor" list]
      by (auto simp: versionTypeList_def)
  qed
qed

text \<open>
  C1. For a list of readable revisions: filter \<^verbatim>\<open>major\<close> yields exactly the elements on
  which the \<^verbatim>\<open>isMajorVersion\<close> call is true, filter \<^verbatim>\<open>minor\<close> exactly those on which it
  is false, and filter \<^verbatim>\<open>all\<close> the list itself. Both filtered lists keep the order of
  the list, and together they hold each element of it once. This is so for every function
  \<open>isMajor\<close> in the place of \<^verbatim>\<open>isMajorVersion\<close>.
\<close>

theorem versionTypeList_filters:
  assumes "\<forall>v \<in> set list. readable v"
  shows "versionTypeList isMajor ''major'' (Some list)
        = Inr (filter (\<lambda>v. entryIsMajor isMajor v = Inr True) list)
    \<and> versionTypeList isMajor ''minor'' (Some list)
        = Inr (filter (\<lambda>v. entryIsMajor isMajor v = Inr False) list)
    \<and> versionTypeList isMajor ''all'' (Some list) = Inr list
    \<and> subseq (filter (\<lambda>v. entryIsMajor isMajor v = Inr True) list) list
    \<and> subseq (filter (\<lambda>v. entryIsMajor isMajor v = Inr False) list) list
    \<and> mset (filter (\<lambda>v. entryIsMajor isMajor v = Inr True) list)
        + mset (filter (\<lambda>v. entryIsMajor isMajor v = Inr False) list) = mset list"
proof -
  have "filter (\<lambda>v. entryIsMajor isMajor v = Inr False) list
          = filter (\<lambda>v. \<not> entryIsMajor isMajor v = Inr True) list"
  proof (rule filter_cong [OF refl])
    fix v
    assume "v \<in> set list"
    with assms obtain b where "entryIsMajor isMajor v = Inr b"
      using entryIsMajor_Inr [of isMajor v] by blast
    then show "(entryIsMajor isMajor v = Inr False) = (\<not> entryIsMajor isMajor v = Inr True)"
      by auto
  qed
  then have "mset (filter (\<lambda>v. entryIsMajor isMajor v = Inr True) list)
        + mset (filter (\<lambda>v. entryIsMajor isMajor v = Inr False) list) = mset list"
    by simp
  then show ?thesis
    using versionTypeList_major [OF assms] versionTypeList_minor [OF assms]
    by (simp add: versionTypeList_default)
qed

lemma exampleVersions_readable: "\<forall>v \<in> set exampleVersions. readable v"
  by code_simp

theorem versionTypeList_filters_witness:
  "list_all readable exampleVersions
   \<and> versionTypeList isMajorVersion ''major'' (Some exampleVersions)
       = Inr [JSONText (record1 (Finite 2 (- 1)) (Finite 12 (- 1)))]
   \<and> versionTypeList isMajorVersion ''minor'' (Some exampleVersions)
       = Inr [JSONText (record1 (Finite 1 (- 1)) (Finite 2 (- 1))), JSONText record0]
   \<and> versionTypeList isMajorVersion ''all'' (Some exampleVersions) = Inr exampleVersions"
proof -
  have "filter (\<lambda>v. entryIsMajor isMajorVersion v = Inr True) exampleVersions
          = [JSONText (record1 (Finite 2 (- 1)) (Finite 12 (- 1)))]"
    by code_simp
  moreover have "filter (\<lambda>v. entryIsMajor isMajorVersion v = Inr False) exampleVersions
          = [JSONText (record1 (Finite 1 (- 1)) (Finite 2 (- 1))), JSONText record0]"
    by code_simp
  moreover have "list_all readable exampleVersions"
    using exampleVersions_readable by (simp add: list_all_iff)
  ultimately show ?thesis
    using versionTypeList_filters [OF exampleVersions_readable, of isMajorVersion] by simp
qed

section \<open>Revisions without a usable previous version\<close>

lemma isMajorVersion_NaN: "isMajorVersion (toFixed1 NaN) current = False"
  by (simp add: isMajorVersion_def parseFloatString_def isWhiteSpace_def isDigit_def Let_def)

lemma absent_previousVersion:
  "previousVersionOf currV = None \<Longrightarrow> parseFloat (previousVersionOf currV) = Inr NaN"
  by (simp add: parseFloat_def)

lemma isMajorCall_NaN:
  "parseFloat (previousVersionOf currV) = Inr NaN \<Longrightarrow> isMajorCall isMajorVersion currV \<noteq> Inr True"
  using isMajorVersion_NaN
  by (auto simp: isMajorCall_def toFixedString_def split: sum.splits)

text \<open>
  C3. A revision whose \<^verbatim>\<open>changeDescription.previousVersion\<close> is absent, or for which
  \<^verbatim>\<open>parseFloat\<close> finds no decimal, is not major: the \<^verbatim>\<open>isMajorVersion\<close> call is not true
  of it, in a list of readable revisions the \<^verbatim>\<open>major\<close> filter drops it and the
  \<^verbatim>\<open>minor\<close> filter keeps it, and a row rendered for it carries no "Major" badge under
  any filter.
\<close>

theorem unparseable_previousVersion_not_major:
  assumes "previousVersionOf currV = None \<or> parseFloat (previousVersionOf currV) = Inr NaN"
  shows "isMajorCall isMajorVersion currV \<noteq> Inr True
    \<and> ((\<forall>v \<in> set list. readable v) \<and> JSONText currV \<in> set list \<longrightarrow>
         (\<exists>kept. versionTypeList isMajorVersion ''major'' (Some list) = Inr kept
                \<and> JSONText currV \<notin> set kept)
         \<and> (\<exists>kept. versionTypeList isMajorVersion ''minor'' (Some list) = Inr kept
                \<and> JSONText currV \<in> set kept))
    \<and> majorVersionChecks isMajorVersion vType currV \<noteq> Inr True
    \<and> (\<forall>row. renderRow isMajorVersion vType i currV = Inr row \<longrightarrow> \<not> row_major row)"
proof -
  from assms have nan: "parseFloat (previousVersionOf currV) = Inr NaN"
    using absent_previousVersion by blast
  then have no: "isMajorCall isMajorVersion currV \<noteq> Inr True"
    by (rule isMajorCall_NaN)
  then have checks: "majorVersionChecks isMajorVersion vType currV \<noteq> Inr True"
    by (auto simp: majorVersionChecks_def split: sum.splits)
  then have row: "\<forall>row. renderRow isMajorVersion vType i currV = Inr row \<longrightarrow> \<not> row_major row"
    by (auto simp: renderRow_def split: sum.splits)
  have "(\<exists>kept. versionTypeList isMajorVersion ''major'' (Some list) = Inr kept
                \<and> JSONText currV \<notin> set kept)
         \<and> (\<exists>kept. versionTypeList isMajorVersion ''minor'' (Some list) = Inr kept
                \<and> JSONText currV \<in> set kept)"
    if r: "\<forall>v \<in> set list. readable v" and mem: "JSONText currV \<in> set list"
  proof -
    from r mem obtain b where b: "entryIsMajor isMajorVersion (JSONText currV) = Inr b"
      using entryIsMajor_Inr [of isMajorVersion "JSONText currV"] by blast
    with no have "entryIsMajor isMajorVersion (JSONText currV) = Inr False"
      by (cases b) (simp_all add: entryIsMajor_def)
    with mem show ?thesis
      by (simp add: versionTypeList_major [OF r] versionTypeList_minor [OF r])
  qed
  with no checks row show ?thesis
    by blast
qed

theorem unparseable_previousVersion_not_major_witness:
  "previousVersionOf record0 = None
   \<and> list_all readable exampleVersions
   \<and> JSONText record0 \<in> set exampleVersions
   \<and> versionTypeList isMajorVersion ''major'' (Some exampleVersions)
       = Inr [JSONText (record1 (Finite 2 (- 1)) (Finite 12 (- 1)))]
   \<and> JSONText record0 \<notin> set [JSONText (record1 (Finite 2 (- 1)) (Finite 12 (- 1)))]
   \<and> versionTypeList isMajorVersion ''minor'' (Some exampleVersions)
       = Inr [JSONText (record1 (Finite 1 (- 1)) (Finite 2 (- 1))), JSONText record0]
   \<and> renderRow isMajorVersion ''all'' 2 record0
       = Inr \<lparr>row_connector = False, row_label = ''v0.1'', row_major = False\<rparr>"
proof -
  have major: "versionTypeList isMajorVersion ''major'' (Some exampleVersions)
       = Inr [JSONText (record1 (Finite 2 (- 1)) (Finite 12 (- 1)))]"
    by code_simp
  have minor: "versionTypeList isMajorVersion ''minor'' (Some exampleVersions)
       = Inr [JSONText (record1 (Finite 1 (- 1)) (Finite 2 (- 1))), JSONText record0]"
    by code_simp
  have other: "JSONText record0 \<notin> set [JSONText (record1 (Finite 2 (- 1)) (Finite 12 (- 1)))]"
    by (simp add: record0_def record1_def)
  have absent: "previousVersionOf record0 = None"
    by (simp add: previousVersionOf_def record0_def)
  have mem: "JSONText record0 \<in> set exampleVersions"
    by (simp add: exampleVersions_def)
  have row: "renderRow isMajorVersion ''all'' 2 record0
       = Inr \<lparr>row_connector = False, row_label = ''v0.1'', row_major = False\<rparr>"
    by code_simp
  have readable: "list_all readable exampleVersions"
    using exampleVersions_readable by (simp add: list_all_iff)
  from unparseable_previousVersion_not_major [of record0 exampleVersions "''all''" 2]
    absent mem exampleVersions_readable readable row major minor other
  show ?thesis
    by blast
qed

text \<open>Some previous versions in which \<^verbatim>\<open>parseFloat\<close> finds no decimal.\<close>

lemma unparseable_examples:
  "parseFloat (previousVersionOf (JObject [(''changeDescription'', JNull)])) = Inr NaN
   \<and> parseFloat (previousVersionOf
        (JObject [(''changeDescription'', JObject [(''previousVersion'', JString ''n/a'')])]))
       = Inr NaN
   \<and> parseFloat (previousVersionOf
        (JObject [(''changeDescription'', JObject [(''previousVersion'', JNull)])])) = Inr NaN
   \<and> parseFloat (previousVersionOf JNull) = Inr NaN"
  by code_simp

section \<open>The "Major" badge\<close>

lemma arrayMap_Inr:
  "arrayMap f k xs = Inr ys \<Longrightarrow>
     length ys = length xs \<and> (\<forall>i < length xs. f (k + i) (xs ! i) = Inr (ys ! i))"
proof (induction xs arbitrary: k ys)
  case Nil
  then show ?case by simp
next
  case (Cons x xs)
  from Cons.prems obtain y zs where fx: "f k x = Inr y"
    and rest: "arrayMap f (Suc k) xs = Inr zs" and ys: "ys = y # zs"
    by (auto split: sum.splits)
  from Cons.IH [OF rest] have len: "length zs = length xs"
    and nth: "\<forall>i < length xs. f (Suc k + i) (xs ! i) = Inr (zs ! i)"
    by simp_all
  show ?case
  proof (intro conjI allI impI)
    show "length ys = length (x # xs)"
      using len ys by simp
  next
    fix i
    assume "i < length (x # xs)"
    then show "f (k + i) ((x # xs) ! i) = Inr (ys ! i)"
      using fx nth ys by (cases i) auto
  qed
qed

lemma arrayMap_from_0:
  "arrayMap f 0 xs = Inr ys \<Longrightarrow>
     length ys = length xs \<and> (\<forall>i < length xs. f i (xs ! i) = Inr (ys ! i))"
  using arrayMap_Inr [of f 0 xs ys] by simp

lemma renderRow_badge:
  "renderRow isMajor vType i currV = Inr row \<Longrightarrow>
     \<exists>major. isMajorCall isMajor currV = Inr major \<and> row_major row = (vType = ''all'' \<and> major)"
  by (auto simp: renderRow_def majorVersionChecks_def split: sum.splits)

text \<open>
  C4. When \<^verbatim>\<open>getVersionList\<close> renders rows, there is one row for each element of the
  filtered list, in its order, and the row of a revision shows the "Major" badge iff the
  filter is \<^verbatim>\<open>all\<close> and the \<^verbatim>\<open>isMajorVersion\<close> call is true of that revision. Under any
  other filter, \<^verbatim>\<open>major\<close> and \<^verbatim>\<open>minor\<close> among them, no row shows the badge. This is so for
  every function \<open>isMajor\<close> in the place of \<^verbatim>\<open>isMajorVersion\<close>.
\<close>

theorem major_badge_iff:
  assumes "getVersionList isMajor vType versions = Inr (VersionRows rows)"
  shows "\<exists>vtl. versionTypeList isMajor vType versions = Inr vtl
      \<and> length rows = length vtl
      \<and> (\<forall>i < length rows. \<exists>currV major. vtl ! i = JSONText currV
            \<and> renderRow isMajor vType i currV = Inr (rows ! i)
            \<and> isMajorCall isMajor currV = Inr major
            \<and> row_major (rows ! i) = (vType = ''all'' \<and> major))
      \<and> (vType \<noteq> ''all'' \<longrightarrow> (\<forall>r \<in> set rows. \<not> row_major r))"
proof -
  let ?f = "\<lambda>i v. case JSON_parse v of Inl e \<Rightarrow> Inl e
                    | Inr currV \<Rightarrow> renderRow isMajor vType i currV"
  from assms obtain vtl where vtl: "versionTypeList isMajor vType versions = Inr vtl"
    and m: "arrayMap ?f 0 vtl = Inr rows"
    by (auto simp: getVersionList_def split: sum.splits if_splits)
  from arrayMap_from_0 [OF m] have len: "length rows = length vtl"
    and nth: "\<forall>i < length vtl. ?f i (vtl ! i) = Inr (rows ! i)"
    by simp_all
  have row: "\<exists>currV major. vtl ! i = JSONText currV
            \<and> renderRow isMajor vType i currV = Inr (rows ! i)
            \<and> isMajorCall isMajor currV = Inr major
            \<and> row_major (rows ! i) = (vType = ''all'' \<and> major)"
    if "i < length rows" for i
  proof -
    from that len nth have fi: "?f i (vtl ! i) = Inr (rows ! i)"
      by simp
    then obtain currV where c: "vtl ! i = JSONText currV"
      by (cases "vtl ! i") auto
    with fi have r: "renderRow isMajor vType i currV = Inr (rows ! i)"
      by simp
    from renderRow_badge [OF r] c r show ?thesis
      by blast
  qed
  have "\<forall>r \<in> set rows. \<not> row_major r" if "vType \<noteq> ''all''"
  proof
    fix r
    assume "r \<in> set rows"
    then obtain i where "i < length rows" "r = rows ! i"
      by (auto simp: in_set_conv_nth)
    with row [of i] that show "\<not> row_major r"
      by auto
  qed
  with vtl len row show ?thesis
    by blast
qed

theorem major_badge_iff_witness:
  "getVersionList isMajorVersion ''all'' (Some exampleVersions)
     = Inr (VersionRows
              [\<lparr>row_connector = True, row_label = ''v1.2'', row_major = True\<rparr>,
               \<lparr>row_connector = False, row_label = ''v0.2'', row_major = False\<rparr>,
               \<lparr>row_connector = False, row_label = ''v0.1'', row_major = False\<rparr>])
   \<and> getVersionList isMajorVersion ''major'' (Some exampleVersions)
     = Inr (VersionRows [\<lparr>row_connector = True, row_label = ''v1.2'', row_major = False\<rparr>])
   \<and> getVersionList isMajorVersion ''minor'' (Some exampleVersions)
     = Inr (VersionRows
              [\<lparr>row_connector = True, row_label = ''v0.2'', row_major = False\<rparr>,
               \<lparr>row_connector = False, row_label = ''v0.1'', row_major = False\<rparr>])
   \<and> list_all (\<lambda>r. \<not> row_major r)
        [\<lparr>row_connector = True, row_label = ''v1.2'', row_major = False\<rparr>]"
proof -
  have minorRun: "getVersionList isMajorVersion ''minor'' (Some exampleVersions)
     = Inr (VersionRows
              [\<lparr>row_connector = True, row_label = ''v0.2'', row_major = False\<rparr>,
               \<lparr>row_connector = False, row_label = ''v0.1'', row_major = False\<rparr>])"
    by code_simp
  have allRun: "getVersionList isMajorVersion ''all'' (Some exampleVersions)
     = Inr (VersionRows
              [\<lparr>row_connector = True, row_label = ''v1.2'', row_major = True\<rparr>,
               \<lparr>row_connector = False, row_label = ''v0.2'', row_major = False\<rparr>,
               \<lparr>row_connector = False, row_label = ''v0.1'', row_major = False\<rparr>])"
    by code_simp
  have majorRun: "getVersionList isMajorVersion ''major'' (Some exampleVersions)
     = Inr (VersionRows [\<lparr>row_connector = True, row_label = ''v1.2'', row_major = False\<rparr>])"
    by code_simp
  from major_badge_iff [OF majorRun]
  have "list_all (\<lambda>r. \<not> row_major r)
          [\<lparr>row_connector = True, row_label = ''v1.2'', row_major = False\<rparr>]"
    by (auto simp: list_all_iff)
  with allRun majorRun minorRun show ?thesis
    by simp
qed

end
